theory Spec2Isabelle
  imports Main
begin

section \<open>The book catalog of main.py\<close>

text \<open>
  The program keeps a list of \<open>Book\<close> objects and a counter \<open>current_id\<close> in a
  \<open>Library\<close> object, and rewrites the file \<open>library.json\<close> after every change.
  The model passes the state explicitly: the two attributes of the \<open>Library\<close>, the
  file on disk and the lines printed so far.

  Python's \<open>int\<close> is unbounded, so it is \<open>int\<close>. A \<open>str\<close> is a \<open>string\<close>: text
  outside ASCII stands as its UTF-8 bytes. Input and output errors of the operating
  system and the limits of the interpreter are outside the model.
\<close>

subsection \<open>Strings\<close>

text \<open>
  \<open>str(n)\<close> for an integer: the decimal digits, with a minus sign for a negative
  number.
\<close>

definition digit :: "nat \<Rightarrow> char" where
  "digit d = ''0123456789'' ! d"

fun str_nat :: "nat \<Rightarrow> string" where
  "str_nat n = (if n < 10 then [digit n] else str_nat (n div 10) @ [digit (n mod 10)])"

declare str_nat.simps [simp del]

definition str_int :: "int \<Rightarrow> string" where
  "str_int i = (if i < 0 then CHR ''-'' # str_nat (nat (- i)) else str_nat (nat i))"

subsection \<open>Lower case\<close>

text \<open>
  \<open>s.lower()\<close> is a built-in of Python; the model follows \<open>do_lower\<close> of CPython
  (\<open>Objects/unicodeobject.c\<close>) on the code points of the string, with the case
  tables of CPython 3.11 (Unicode 14.0.0). A \<open>string\<close> holds the UTF-8 bytes of a
  \<open>str\<close>, so \<open>lower\<close> decodes the bytes, lower-cases the code points and encodes
  the result.

  The simple lower-case mapping, as ranges \<open>(first, last, delta, step)\<close>: a code
  point \<open>c\<close> from \<open>first\<close> to \<open>last\<close>, at a multiple of \<open>step\<close> from \<open>first\<close>,
  becomes \<open>c + delta\<close>.
\<close>

definition lower_ranges :: "(int \<times> int \<times> int \<times> int) list" where
  "lower_ranges =
     [
      (0x41, 0x5A, 32, 1), (0xC0, 0xD6, 32, 1), (0xD8, 0xDE, 32, 1), (0x100, 0x12E, 1, 2),
      (0x132, 0x136, 1, 2), (0x139, 0x147, 1, 2), (0x14A, 0x176, 1, 2), (0x178, 0x178, - 121, 1),
      (0x179, 0x17D, 1, 2), (0x181, 0x181, 210, 1), (0x182, 0x184, 1, 2), (0x186, 0x186, 206, 1),
      (0x187, 0x187, 1, 1), (0x189, 0x18A, 205, 1), (0x18B, 0x18B, 1, 1), (0x18E, 0x18E, 79, 1),
      (0x18F, 0x18F, 202, 1), (0x190, 0x190, 203, 1), (0x191, 0x191, 1, 1), (0x193, 0x193, 205, 1),
      (0x194, 0x194, 207, 1), (0x196, 0x196, 211, 1), (0x197, 0x197, 209, 1), (0x198, 0x198, 1, 1),
      (0x19C, 0x19C, 211, 1), (0x19D, 0x19D, 213, 1), (0x19F, 0x19F, 214, 1), (0x1A0, 0x1A4, 1, 2),
      (0x1A6, 0x1A6, 218, 1), (0x1A7, 0x1A7, 1, 1), (0x1A9, 0x1A9, 218, 1), (0x1AC, 0x1AC, 1, 1),
      (0x1AE, 0x1AE, 218, 1), (0x1AF, 0x1AF, 1, 1), (0x1B1, 0x1B2, 217, 1), (0x1B3, 0x1B5, 1, 2),
      (0x1B7, 0x1B7, 219, 1), (0x1B8, 0x1B8, 1, 1), (0x1BC, 0x1BC, 1, 1), (0x1C4, 0x1C4, 2, 1),
      (0x1C5, 0x1C5, 1, 1), (0x1C7, 0x1C7, 2, 1), (0x1C8, 0x1C8, 1, 1), (0x1CA, 0x1CA, 2, 1),
      (0x1CB, 0x1DB, 1, 2), (0x1DE, 0x1EE, 1, 2), (0x1F1, 0x1F1, 2, 1), (0x1F2, 0x1F4, 1, 2),
      (0x1F6, 0x1F6, - 97, 1), (0x1F7, 0x1F7, - 56, 1), (0x1F8, 0x21E, 1, 2), (0x220, 0x220, - 130, 1),
      (0x222, 0x232, 1, 2), (0x23A, 0x23A, 10795, 1), (0x23B, 0x23B, 1, 1), (0x23D, 0x23D, - 163, 1),
      (0x23E, 0x23E, 10792, 1), (0x241, 0x241, 1, 1), (0x243, 0x243, - 195, 1), (0x244, 0x244, 69, 1),
      (0x245, 0x245, 71, 1), (0x246, 0x24E, 1, 2), (0x370, 0x372, 1, 2), (0x376, 0x376, 1, 1),
      (0x37F, 0x37F, 116, 1), (0x386, 0x386, 38, 1), (0x388, 0x38A, 37, 1), (0x38C, 0x38C, 64, 1),
      (0x38E, 0x38F, 63, 1), (0x391, 0x3A1, 32, 1), (0x3A3, 0x3AB, 32, 1), (0x3CF, 0x3CF, 8, 1),
      (0x3D8, 0x3EE, 1, 2), (0x3F4, 0x3F4, - 60, 1), (0x3F7, 0x3F7, 1, 1), (0x3F9, 0x3F9, - 7, 1),
      (0x3FA, 0x3FA, 1, 1), (0x3FD, 0x3FF, - 130, 1), (0x400, 0x40F, 80, 1), (0x410, 0x42F, 32, 1),
      (0x460, 0x480, 1, 2), (0x48A, 0x4BE, 1, 2), (0x4C0, 0x4C0, 15, 1), (0x4C1, 0x4CD, 1, 2),
      (0x4D0, 0x52E, 1, 2), (0x531, 0x556, 48, 1), (0x10A0, 0x10C5, 7264, 1), (0x10C7, 0x10C7, 7264, 1),
      (0x10CD, 0x10CD, 7264, 1), (0x13A0, 0x13EF, 38864, 1), (0x13F0, 0x13F5, 8, 1), (0x1C90, 0x1CBA, - 3008, 1),
      (0x1CBD, 0x1CBF, - 3008, 1), (0x1E00, 0x1E94, 1, 2), (0x1E9E, 0x1E9E, - 7615, 1), (0x1EA0, 0x1EFE, 1, 2),
      (0x1F08, 0x1F0F, - 8, 1), (0x1F18, 0x1F1D, - 8, 1), (0x1F28, 0x1F2F, - 8, 1), (0x1F38, 0x1F3F, - 8, 1),
      (0x1F48, 0x1F4D, - 8, 1), (0x1F59, 0x1F5F, - 8, 2), (0x1F68, 0x1F6F, - 8, 1), (0x1F88, 0x1F8F, - 8, 1),
      (0x1F98, 0x1F9F, - 8, 1), (0x1FA8, 0x1FAF, - 8, 1), (0x1FB8, 0x1FB9, - 8, 1), (0x1FBA, 0x1FBB, - 74, 1),
      (0x1FBC, 0x1FBC, - 9, 1), (0x1FC8, 0x1FCB, - 86, 1), (0x1FCC, 0x1FCC, - 9, 1), (0x1FD8, 0x1FD9, - 8, 1),
      (0x1FDA, 0x1FDB, - 100, 1), (0x1FE8, 0x1FE9, - 8, 1), (0x1FEA, 0x1FEB, - 112, 1), (0x1FEC, 0x1FEC, - 7, 1),
      (0x1FF8, 0x1FF9, - 128, 1), (0x1FFA, 0x1FFB, - 126, 1), (0x1FFC, 0x1FFC, - 9, 1), (0x2126, 0x2126, - 7517, 1),
      (0x212A, 0x212A, - 8383, 1), (0x212B, 0x212B, - 8262, 1), (0x2132, 0x2132, 28, 1), (0x2160, 0x216F, 16, 1),
      (0x2183, 0x2183, 1, 1), (0x24B6, 0x24CF, 26, 1), (0x2C00, 0x2C2F, 48, 1), (0x2C60, 0x2C60, 1, 1),
      (0x2C62, 0x2C62, - 10743, 1), (0x2C63, 0x2C63, - 3814, 1), (0x2C64, 0x2C64, - 10727, 1), (0x2C67, 0x2C6B, 1, 2),
      (0x2C6D, 0x2C6D, - 10780, 1), (0x2C6E, 0x2C6E, - 10749, 1), (0x2C6F, 0x2C6F, - 10783, 1), (0x2C70, 0x2C70, - 10782, 1),
      (0x2C72, 0x2C72, 1, 1), (0x2C75, 0x2C75, 1, 1), (0x2C7E, 0x2C7F, - 10815, 1), (0x2C80, 0x2CE2, 1, 2),
      (0x2CEB, 0x2CED, 1, 2), (0x2CF2, 0x2CF2, 1, 1), (0xA640, 0xA66C, 1, 2), (0xA680, 0xA69A, 1, 2),
      (0xA722, 0xA72E, 1, 2), (0xA732, 0xA76E, 1, 2), (0xA779, 0xA77B, 1, 2), (0xA77D, 0xA77D, - 35332, 1),
      (0xA77E, 0xA786, 1, 2), (0xA78B, 0xA78B, 1, 1), (0xA78D, 0xA78D, - 42280, 1), (0xA790, 0xA792, 1, 2),
      (0xA796, 0xA7A8, 1, 2), (0xA7AA, 0xA7AA, - 42308, 1), (0xA7AB, 0xA7AB, - 42319, 1), (0xA7AC, 0xA7AC, - 42315, 1),
      (0xA7AD, 0xA7AD, - 42305, 1), (0xA7AE, 0xA7AE, - 42308, 1), (0xA7B0, 0xA7B0, - 42258, 1), (0xA7B1, 0xA7B1, - 42282, 1),
      (0xA7B2, 0xA7B2, - 42261, 1), (0xA7B3, 0xA7B3, 928, 1), (0xA7B4, 0xA7C2, 1, 2), (0xA7C4, 0xA7C4, - 48, 1),
      (0xA7C5, 0xA7C5, - 42307, 1), (0xA7C6, 0xA7C6, - 35384, 1), (0xA7C7, 0xA7C9, 1, 2), (0xA7D0, 0xA7D0, 1, 1),
      (0xA7D6, 0xA7D8, 1, 2), (0xA7F5, 0xA7F5, 1, 1), (0xFF21, 0xFF3A, 32, 1), (0x10400, 0x10427, 40, 1),
      (0x104B0, 0x104D3, 40, 1), (0x10570, 0x1057A, 39, 1), (0x1057C, 0x1058A, 39, 1), (0x1058C, 0x10592, 39, 1),
      (0x10594, 0x10595, 39, 1), (0x10C80, 0x10CB2, 64, 1), (0x118A0, 0x118BF, 32, 1), (0x16E40, 0x16E5F, 32, 1),
      (0x1E900, 0x1E921, 34, 1)
     ]"

text \<open>The code points with the property Case_Ignorable, as ranges \<open>(first, last)\<close>.\<close>

definition case_ignorable_ranges :: "(int \<times> int) list" where
  "case_ignorable_ranges =
     [
      (0x27, 0x27), (0x2E, 0x2E), (0x3A, 0x3A), (0x5E, 0x5E), (0x60, 0x60), (0xA8, 0xA8),
      (0xAD, 0xAD), (0xAF, 0xAF), (0xB4, 0xB4), (0xB7, 0xB8), (0x2B0, 0x36F), (0x374, 0x375),
      (0x37A, 0x37A), (0x384, 0x385), (0x387, 0x387), (0x483, 0x489), (0x559, 0x559), (0x55F, 0x55F),
      (0x591, 0x5BD), (0x5BF, 0x5BF), (0x5C1, 0x5C2), (0x5C4, 0x5C5), (0x5C7, 0x5C7), (0x5F4, 0x5F4),
      (0x600, 0x605), (0x610, 0x61A), (0x61C, 0x61C), (0x640, 0x640), (0x64B, 0x65F), (0x670, 0x670),
      (0x6D6, 0x6DD), (0x6DF, 0x6E8), (0x6EA, 0x6ED), (0x70F, 0x70F), (0x711, 0x711), (0x730, 0x74A),
      (0x7A6, 0x7B0), (0x7EB, 0x7F5), (0x7FA, 0x7FA), (0x7FD, 0x7FD), (0x816, 0x82D), (0x859, 0x85B),
      (0x888, 0x888), (0x890, 0x891), (0x898, 0x89F), (0x8C9, 0x902), (0x93A, 0x93A), (0x93C, 0x93C),
      (0x941, 0x948), (0x94D, 0x94D), (0x951, 0x957), (0x962, 0x963), (0x971, 0x971), (0x981, 0x981),
      (0x9BC, 0x9BC), (0x9C1, 0x9C4), (0x9CD, 0x9CD), (0x9E2, 0x9E3), (0x9FE, 0x9FE), (0xA01, 0xA02),
      (0xA3C, 0xA3C), (0xA41, 0xA42), (0xA47, 0xA48), (0xA4B, 0xA4D), (0xA51, 0xA51), (0xA70, 0xA71),
      (0xA75, 0xA75), (0xA81, 0xA82), (0xABC, 0xABC), (0xAC1, 0xAC5), (0xAC7, 0xAC8), (0xACD, 0xACD),
      (0xAE2, 0xAE3), (0xAFA, 0xAFF), (0xB01, 0xB01), (0xB3C, 0xB3C), (0xB3F, 0xB3F), (0xB41, 0xB44),
      (0xB4D, 0xB4D), (0xB55, 0xB56), (0xB62, 0xB63), (0xB82, 0xB82), (0xBC0, 0xBC0), (0xBCD, 0xBCD),
      (0xC00, 0xC00), (0xC04, 0xC04), (0xC3C, 0xC3C), (0xC3E, 0xC40), (0xC46, 0xC48), (0xC4A, 0xC4D),
      (0xC55, 0xC56), (0xC62, 0xC63), (0xC81, 0xC81), (0xCBC, 0xCBC), (0xCBF, 0xCBF), (0xCC6, 0xCC6),
      (0xCCC, 0xCCD), (0xCE2, 0xCE3), (0xD00, 0xD01), (0xD3B, 0xD3C), (0xD41, 0xD44), (0xD4D, 0xD4D),
      (0xD62, 0xD63), (0xD81, 0xD81), (0xDCA, 0xDCA), (0xDD2, 0xDD4), (0xDD6, 0xDD6), (0xE31, 0xE31),
      (0xE34, 0xE3A), (0xE46, 0xE4E), (0xEB1, 0xEB1), (0xEB4, 0xEBC), (0xEC6, 0xEC6), (0xEC8, 0xECD),
      (0xF18, 0xF19), (0xF35, 0xF35), (0xF37, 0xF37), (0xF39, 0xF39), (0xF71, 0xF7E), (0xF80, 0xF84),
      (0xF86, 0xF87), (0xF8D, 0xF97), (0xF99, 0xFBC), (0xFC6, 0xFC6), (0x102D, 0x1030), (0x1032, 0x1037),
      (0x1039, 0x103A), (0x103D, 0x103E), (0x1058, 0x1059), (0x105E, 0x1060), (0x1071, 0x1074), (0x1082, 0x1082),
      (0x1085, 0x1086), (0x108D, 0x108D), (0x109D, 0x109D), (0x10FC, 0x10FC), (0x135D, 0x135F), (0x1712, 0x1714),
      (0x1732, 0x1733), (0x1752, 0x1753), (0x1772, 0x1773), (0x17B4, 0x17B5), (0x17B7, 0x17BD), (0x17C6, 0x17C6),
      (0x17C9, 0x17D3), (0x17D7, 0x17D7), (0x17DD, 0x17DD), (0x180B, 0x180F), (0x1843, 0x1843), (0x1885, 0x1886),
      (0x18A9, 0x18A9), (0x1920, 0x1922), (0x1927, 0x1928), (0x1932, 0x1932), (0x1939, 0x193B), (0x1A17, 0x1A18),
      (0x1A1B, 0x1A1B), (0x1A56, 0x1A56), (0x1A58, 0x1A5E), (0x1A60, 0x1A60), (0x1A62, 0x1A62), (0x1A65, 0x1A6C),
      (0x1A73, 0x1A7C), (0x1A7F, 0x1A7F), (0x1AA7, 0x1AA7), (0x1AB0, 0x1ACE), (0x1B00, 0x1B03), (0x1B34, 0x1B34),
      (0x1B36, 0x1B3A), (0x1B3C, 0x1B3C), (0x1B42, 0x1B42), (0x1B6B, 0x1B73), (0x1B80, 0x1B81), (0x1BA2, 0x1BA5),
      (0x1BA8, 0x1BA9), (0x1BAB, 0x1BAD), (0x1BE6, 0x1BE6), (0x1BE8, 0x1BE9), (0x1BED, 0x1BED), (0x1BEF, 0x1BF1),
      (0x1C2C, 0x1C33), (0x1C36, 0x1C37), (0x1C78, 0x1C7D), (0x1CD0, 0x1CD2), (0x1CD4, 0x1CE0), (0x1CE2, 0x1CE8),
      (0x1CED, 0x1CED), (0x1CF4, 0x1CF4), (0x1CF8, 0x1CF9), (0x1D2C, 0x1D6A), (0x1D78, 0x1D78), (0x1D9B, 0x1DFF),
      (0x1FBD, 0x1FBD), (0x1FBF, 0x1FC1), (0x1FCD, 0x1FCF), (0x1FDD, 0x1FDF), (0x1FED, 0x1FEF), (0x1FFD, 0x1FFE),
      (0x200B, 0x200F), (0x2018, 0x2019), (0x2024, 0x2024), (0x2027, 0x2027), (0x202A, 0x202E), (0x2060, 0x2064),
      (0x2066, 0x206F), (0x2071, 0x2071), (0x207F, 0x207F), (0x2090, 0x209C), (0x20D0, 0x20F0), (0x2C7C, 0x2C7D),
      (0x2CEF, 0x2CF1), (0x2D6F, 0x2D6F), (0x2D7F, 0x2D7F), (0x2DE0, 0x2DFF), (0x2E2F, 0x2E2F), (0x3005, 0x3005),
      (0x302A, 0x302D), (0x3031, 0x3035), (0x303B, 0x303B), (0x3099, 0x309E), (0x30FC, 0x30FE), (0xA015, 0xA015),
      (0xA4F8, 0xA4FD), (0xA60C, 0xA60C), (0xA66F, 0xA672), (0xA674, 0xA67D), (0xA67F, 0xA67F), (0xA69C, 0xA69F),
      (0xA6F0, 0xA6F1), (0xA700, 0xA721), (0xA770, 0xA770), (0xA788, 0xA78A), (0xA7F2, 0xA7F4), (0xA7F8, 0xA7F9),
      (0xA802, 0xA802), (0xA806, 0xA806), (0xA80B, 0xA80B), (0xA825, 0xA826), (0xA82C, 0xA82C), (0xA8C4, 0xA8C5),
      (0xA8E0, 0xA8F1), (0xA8FF, 0xA8FF), (0xA926, 0xA92D), (0xA947, 0xA951), (0xA980, 0xA982), (0xA9B3, 0xA9B3),
      (0xA9B6, 0xA9B9), (0xA9BC, 0xA9BD), (0xA9CF, 0xA9CF), (0xA9E5, 0xA9E6), (0xAA29, 0xAA2E), (0xAA31, 0xAA32),
      (0xAA35, 0xAA36), (0xAA43, 0xAA43), (0xAA4C, 0xAA4C), (0xAA70, 0xAA70), (0xAA7C, 0xAA7C), (0xAAB0, 0xAAB0),
      (0xAAB2, 0xAAB4), (0xAAB7, 0xAAB8), (0xAABE, 0xAABF), (0xAAC1, 0xAAC1), (0xAADD, 0xAADD), (0xAAEC, 0xAAED),
      (0xAAF3, 0xAAF4), (0xAAF6, 0xAAF6), (0xAB5B, 0xAB5F), (0xAB69, 0xAB6B), (0xABE5, 0xABE5), (0xABE8, 0xABE8),
      (0xABED, 0xABED), (0xFB1E, 0xFB1E), (0xFBB2, 0xFBC2), (0xFE00, 0xFE0F), (0xFE13, 0xFE13), (0xFE20, 0xFE2F),
      (0xFE52, 0xFE52), (0xFE55, 0xFE55), (0xFEFF, 0xFEFF), (0xFF07, 0xFF07), (0xFF0E, 0xFF0E), (0xFF1A, 0xFF1A),
      (0xFF3E, 0xFF3E), (0xFF40, 0xFF40), (0xFF70, 0xFF70), (0xFF9E, 0xFF9F), (0xFFE3, 0xFFE3), (0xFFF9, 0xFFFB),
      (0x101FD, 0x101FD), (0x102E0, 0x102E0), (0x10376, 0x1037A), (0x10780, 0x10785), (0x10787, 0x107B0), (0x107B2, 0x107BA),
      (0x10A01, 0x10A03), (0x10A05, 0x10A06), (0x10A0C, 0x10A0F), (0x10A38, 0x10A3A), (0x10A3F, 0x10A3F), (0x10AE5, 0x10AE6),
      (0x10D24, 0x10D27), (0x10EAB, 0x10EAC), (0x10F46, 0x10F50), (0x10F82, 0x10F85), (0x11001, 0x11001), (0x11038, 0x11046),
      (0x11070, 0x11070), (0x11073, 0x11074), (0x1107F, 0x11081), (0x110B3, 0x110B6), (0x110B9, 0x110BA), (0x110BD, 0x110BD),
      (0x110C2, 0x110C2), (0x110CD, 0x110CD), (0x11100, 0x11102), (0x11127, 0x1112B), (0x1112D, 0x11134), (0x11173, 0x11173),
      (0x11180, 0x11181), (0x111B6, 0x111BE), (0x111C9, 0x111CC), (0x111CF, 0x111CF), (0x1122F, 0x11231), (0x11234, 0x11234),
      (0x11236, 0x11237), (0x1123E, 0x1123E), (0x112DF, 0x112DF), (0x112E3, 0x112EA), (0x11300, 0x11301), (0x1133B, 0x1133C),
      (0x11340, 0x11340), (0x11366, 0x1136C), (0x11370, 0x11374), (0x11438, 0x1143F), (0x11442, 0x11444), (0x11446, 0x11446),
      (0x1145E, 0x1145E), (0x114B3, 0x114B8), (0x114BA, 0x114BA), (0x114BF, 0x114C0), (0x114C2, 0x114C3), (0x115B2, 0x115B5),
      (0x115BC, 0x115BD), (0x115BF, 0x115C0), (0x115DC, 0x115DD), (0x11633, 0x1163A), (0x1163D, 0x1163D), (0x1163F, 0x11640),
      (0x116AB, 0x116AB), (0x116AD, 0x116AD), (0x116B0, 0x116B5), (0x116B7, 0x116B7), (0x1171D, 0x1171F), (0x11722, 0x11725),
      (0x11727, 0x1172B), (0x1182F, 0x11837), (0x11839, 0x1183A), (0x1193B, 0x1193C), (0x1193E, 0x1193E), (0x11943, 0x11943),
      (0x119D4, 0x119D7), (0x119DA, 0x119DB), (0x119E0, 0x119E0), (0x11A01, 0x11A0A), (0x11A33, 0x11A38), (0x11A3B, 0x11A3E),
      (0x11A47, 0x11A47), (0x11A51, 0x11A56), (0x11A59, 0x11A5B), (0x11A8A, 0x11A96), (0x11A98, 0x11A99), (0x11C30, 0x11C36),
      (0x11C38, 0x11C3D), (0x11C3F, 0x11C3F), (0x11C92, 0x11CA7), (0x11CAA, 0x11CB0), (0x11CB2, 0x11CB3), (0x11CB5, 0x11CB6),
      (0x11D31, 0x11D36), (0x11D3A, 0x11D3A), (0x11D3C, 0x11D3D), (0x11D3F, 0x11D45), (0x11D47, 0x11D47), (0x11D90, 0x11D91),
      (0x11D95, 0x11D95), (0x11D97, 0x11D97), (0x11EF3, 0x11EF4), (0x13430, 0x13438), (0x16AF0, 0x16AF4), (0x16B30, 0x16B36),
      (0x16B40, 0x16B43), (0x16F4F, 0x16F4F), (0x16F8F, 0x16F9F), (0x16FE0, 0x16FE1), (0x16FE3, 0x16FE4), (0x1AFF0, 0x1AFF3),
      (0x1AFF5, 0x1AFFB), (0x1AFFD, 0x1AFFE), (0x1BC9D, 0x1BC9E), (0x1BCA0, 0x1BCA3), (0x1CF00, 0x1CF2D), (0x1CF30, 0x1CF46),
      (0x1D167, 0x1D169), (0x1D173, 0x1D182), (0x1D185, 0x1D18B), (0x1D1AA, 0x1D1AD), (0x1D242, 0x1D244), (0x1DA00, 0x1DA36),
      (0x1DA3B, 0x1DA6C), (0x1DA75, 0x1DA75), (0x1DA84, 0x1DA84), (0x1DA9B, 0x1DA9F), (0x1DAA1, 0x1DAAF), (0x1E000, 0x1E006),
      (0x1E008, 0x1E018), (0x1E01B, 0x1E021), (0x1E023, 0x1E024), (0x1E026, 0x1E02A), (0x1E130, 0x1E13D), (0x1E2AE, 0x1E2AE),
      (0x1E2EC, 0x1E2EF), (0x1E8D0, 0x1E8D6), (0x1E944, 0x1E94B), (0x1F3FB, 0x1F3FF), (0xE0001, 0xE0001), (0xE0020, 0xE007F),
      (0xE0100, 0xE01EF)
     ]"

text \<open>The code points with the property Cased, as ranges \<open>(first, last)\<close>.\<close>

definition cased_ranges :: "(int \<times> int) list" where
  "cased_ranges =
     [
      (0x41, 0x5A), (0x61, 0x7A), (0xAA, 0xAA), (0xB5, 0xB5), (0xBA, 0xBA), (0xC0, 0xD6),
      (0xD8, 0xF6), (0xF8, 0x1BA), (0x1BC, 0x1BF), (0x1C4, 0x293), (0x295, 0x2B8), (0x2C0, 0x2C1),
      (0x2E0, 0x2E4), (0x345, 0x345), (0x370, 0x373), (0x376, 0x377), (0x37A, 0x37D), (0x37F, 0x37F),
      (0x386, 0x386), (0x388, 0x38A), (0x38C, 0x38C), (0x38E, 0x3A1), (0x3A3, 0x3F5), (0x3F7, 0x481),
      (0x48A, 0x52F), (0x531, 0x556), (0x560, 0x588), (0x10A0, 0x10C5), (0x10C7, 0x10C7), (0x10CD, 0x10CD),
      (0x10D0, 0x10FA), (0x10FD, 0x10FF), (0x13A0, 0x13F5), (0x13F8, 0x13FD), (0x1C80, 0x1C88), (0x1C90, 0x1CBA),
      (0x1CBD, 0x1CBF), (0x1D00, 0x1DBF), (0x1E00, 0x1F15), (0x1F18, 0x1F1D), (0x1F20, 0x1F45), (0x1F48, 0x1F4D),
      (0x1F50, 0x1F57), (0x1F59, 0x1F59), (0x1F5B, 0x1F5B), (0x1F5D, 0x1F5D), (0x1F5F, 0x1F7D), (0x1F80, 0x1FB4),
      (0x1FB6, 0x1FBC), (0x1FBE, 0x1FBE), (0x1FC2, 0x1FC4), (0x1FC6, 0x1FCC), (0x1FD0, 0x1FD3), (0x1FD6, 0x1FDB),
      (0x1FE0, 0x1FEC), (0x1FF2, 0x1FF4), (0x1FF6, 0x1FFC), (0x2071, 0x2071), (0x207F, 0x207F), (0x2090, 0x209C),
      (0x2102, 0x2102), (0x2107, 0x2107), (0x210A, 0x2113), (0x2115, 0x2115), (0x2119, 0x211D), (0x2124, 0x2124),
      (0x2126, 0x2126), (0x2128, 0x2128), (0x212A, 0x212D), (0x212F, 0x2134), (0x2139, 0x2139), (0x213C, 0x213F),
      (0x2145, 0x2149), (0x214E, 0x214E), (0x2160, 0x217F), (0x2183, 0x2184), (0x24B6, 0x24E9), (0x2C00, 0x2CE4),
      (0x2CEB, 0x2CEE), (0x2CF2, 0x2CF3), (0x2D00, 0x2D25), (0x2D27, 0x2D27), (0x2D2D, 0x2D2D), (0xA640, 0xA66D),
      (0xA680, 0xA69D), (0xA722, 0xA787), (0xA78B, 0xA78E), (0xA790, 0xA7CA), (0xA7D0, 0xA7D1), (0xA7D3, 0xA7D3),
      (0xA7D5, 0xA7D9), (0xA7F5, 0xA7F6), (0xA7F8, 0xA7FA), (0xAB30, 0xAB5A), (0xAB5C, 0xAB68), (0xAB70, 0xABBF),
      (0xFB00, 0xFB06), (0xFB13, 0xFB17), (0xFF21, 0xFF3A), (0xFF41, 0xFF5A), (0x10400, 0x1044F), (0x104B0, 0x104D3),
      (0x104D8, 0x104FB), (0x10570, 0x1057A), (0x1057C, 0x1058A), (0x1058C, 0x10592), (0x10594, 0x10595), (0x10597, 0x105A1),
      (0x105A3, 0x105B1), (0x105B3, 0x105B9), (0x105BB, 0x105BC), (0x10780, 0x10780), (0x10783, 0x10785), (0x10787, 0x107B0),
      (0x107B2, 0x107BA), (0x10C80, 0x10CB2), (0x10CC0, 0x10CF2), (0x118A0, 0x118DF), (0x16E40, 0x16E7F), (0x1D400, 0x1D454),
      (0x1D456, 0x1D49C), (0x1D49E, 0x1D49F), (0x1D4A2, 0x1D4A2), (0x1D4A5, 0x1D4A6), (0x1D4A9, 0x1D4AC), (0x1D4AE, 0x1D4B9),
      (0x1D4BB, 0x1D4BB), (0x1D4BD, 0x1D4C3), (0x1D4C5, 0x1D505), (0x1D507, 0x1D50A), (0x1D50D, 0x1D514), (0x1D516, 0x1D51C),
      (0x1D51E, 0x1D539), (0x1D53B, 0x1D53E), (0x1D540, 0x1D544), (0x1D546, 0x1D546), (0x1D54A, 0x1D550), (0x1D552, 0x1D6A5),
      (0x1D6A8, 0x1D6C0), (0x1D6C2, 0x1D6DA), (0x1D6DC, 0x1D6FA), (0x1D6FC, 0x1D714), (0x1D716, 0x1D734), (0x1D736, 0x1D74E),
      (0x1D750, 0x1D76E), (0x1D770, 0x1D788), (0x1D78A, 0x1D7A8), (0x1D7AA, 0x1D7C2), (0x1D7C4, 0x1D7CB), (0x1DF00, 0x1DF09),
      (0x1DF0B, 0x1DF1E), (0x1E900, 0x1E943), (0x1F130, 0x1F149), (0x1F150, 0x1F169), (0x1F170, 0x1F189)
     ]"

definition in_ranges :: "int \<Rightarrow> (int \<times> int) list \<Rightarrow> bool" where
  "in_ranges c rs = list_ex (\<lambda>(lo, hi). lo \<le> c \<and> c \<le> hi) rs"

definition is_case_ignorable :: "int \<Rightarrow> bool" where
  "is_case_ignorable c = in_ranges c case_ignorable_ranges"

definition is_cased :: "int \<Rightarrow> bool" where
  "is_cased c = in_ranges c cased_ranges"

definition to_lower :: "int \<Rightarrow> int" where
  "to_lower c =
     (case find (\<lambda>(lo, hi, d, k). lo \<le> c \<and> c \<le> hi \<and> (c - lo) mod k = 0) lower_ranges of
        None \<Rightarrow> c
      | Some (lo, hi, d, k) \<Rightarrow> c + d)"

text \<open>
  The full mapping: only the capital I with a dot above (U+0130) becomes two code
  points.
\<close>

definition to_lower_full :: "int \<Rightarrow> int list" where
  "to_lower_full c = (if c = 0x130 then [0x69, 0x307] else [to_lower c])"

text \<open>
  The capital sigma (U+03A3) becomes the final sigma (U+03C2) when a cased letter
  stands before it and none after it, case-ignorable code points skipped on both
  sides; otherwise it becomes the small sigma (U+03C3). \<open>prev\<close> holds the code
  points before the sigma, the nearest first.
\<close>

definition handle_capital_sigma :: "int list \<Rightarrow> int list \<Rightarrow> int" where
  "handle_capital_sigma prev rest =
     (if (case dropWhile is_case_ignorable prev of [] \<Rightarrow> False | c # _ \<Rightarrow> is_cased c) \<and>
         (case dropWhile is_case_ignorable rest of [] \<Rightarrow> True | c # _ \<Rightarrow> \<not> is_cased c)
      then 0x3C2 else 0x3C3)"

fun do_lower :: "int list \<Rightarrow> int list \<Rightarrow> int list" where
  "do_lower prev [] = []"
| "do_lower prev (c # rest) =
     (if c = 0x3A3 then [handle_capital_sigma prev rest] else to_lower_full c)
       @ do_lower (c # prev) rest"

text \<open>UTF-8: the code points of a byte sequence, if it is well formed, and back.\<close>

definition continuation :: "int \<Rightarrow> bool" where
  "continuation b = (0x80 \<le> b \<and> b < 0xC0)"

fun utf8_decode :: "int list \<Rightarrow> int list option" where
  "utf8_decode [] = Some []"
| "utf8_decode (b # bs) =
     (if b < 0x80 then map_option (Cons b) (utf8_decode bs)
      else if b < 0xE0 then
        (case bs of
           b1 # rest \<Rightarrow>
             if 0xC2 \<le> b \<and> continuation b1
             then map_option (Cons ((b - 0xC0) * 64 + (b1 - 0x80))) (utf8_decode rest)
             else None
         | _ \<Rightarrow> None)
      else if b < 0xF0 then
        (case bs of
           b1 # b2 # rest \<Rightarrow>
             if continuation b1 \<and> continuation b2 \<and>
                0x800 \<le> (b - 0xE0) * 4096 + (b1 - 0x80) * 64 + (b2 - 0x80) \<and>
                \<not> (0xD800 \<le> (b - 0xE0) * 4096 + (b1 - 0x80) * 64 + (b2 - 0x80) \<and>
                   (b - 0xE0) * 4096 + (b1 - 0x80) * 64 + (b2 - 0x80) < 0xE000)
             then map_option (Cons ((b - 0xE0) * 4096 + (b1 - 0x80) * 64 + (b2 - 0x80)))
                    (utf8_decode rest)
             else None
         | _ \<Rightarrow> None)
      else
        (case bs of
           b1 # b2 # b3 # rest \<Rightarrow>
             if b < 0xF5 \<and> continuation b1 \<and> continuation b2 \<and> continuation b3 \<and>
                0x10000 \<le> (b - 0xF0) * 262144 + (b1 - 0x80) * 4096 + (b2 - 0x80) * 64 + (b3 - 0x80) \<and>
                (b - 0xF0) * 262144 + (b1 - 0x80) * 4096 + (b2 - 0x80) * 64 + (b3 - 0x80) < 0x110000
             then map_option
                    (Cons ((b - 0xF0) * 262144 + (b1 - 0x80) * 4096 + (b2 - 0x80) * 64 + (b3 - 0x80)))
                    (utf8_decode rest)
             else None
         | _ \<Rightarrow> None))"

definition utf8_encode_cp :: "int \<Rightarrow> int list" where
  "utf8_encode_cp c =
     (if c < 0x80 then [c]
      else if c < 0x800 then [0xC0 + c div 64, 0x80 + c mod 64]
      else if c < 0x10000 then [0xE0 + c div 4096, 0x80 + c div 64 mod 64, 0x80 + c mod 64]
      else [0xF0 + c div 262144, 0x80 + c div 4096 mod 64, 0x80 + c div 64 mod 64,
            0x80 + c mod 64])"

definition utf8_encode :: "int list \<Rightarrow> int list" where
  "utf8_encode cs = concat (map utf8_encode_cp cs)"

text \<open>
  \<open>s.lower()\<close>. Bytes that are not well-formed UTF-8 are the encoding of no \<open>str\<close>;
  they are left as they are.
\<close>

definition lower :: "string \<Rightarrow> string" where
  "lower s =
     (case utf8_decode (map of_char s) of
        None \<Rightarrow> s
      | Some cs \<Rightarrow> map char_of (utf8_encode (do_lower [] cs)))"

subsection \<open>class Book\<close>

record Book =
  book_id :: int
  title :: string
  author :: string
  year :: int
  status :: string

text \<open>
  The default of the parameter \<open>status\<close> of \<open>Book.__init__\<close>: the nine letters of
  the Russian phrase for "in stock", written here as the 17 bytes of their UTF-8
  encoding.
\<close>

definition default_status :: string where
  "default_status =
     [CHR 0xD0, CHR 0xB2, CHR 0x20, CHR 0xD0, CHR 0xBD, CHR 0xD0, CHR 0xB0, CHR 0xD0,
      CHR 0xBB, CHR 0xD0, CHR 0xB8, CHR 0xD1, CHR 0x87, CHR 0xD0, CHR 0xB8, CHR 0xD0,
      CHR 0xB8]"

text \<open>\<open>Book.__str__\<close>, the line printed for a book.\<close>

definition Book_str :: "Book \<Rightarrow> string" where
  "Book_str b =
     ''ID: '' @ str_int (book_id b) @ '', Title: '' @ title b @ '', Author: '' @ author b
       @ '', Year: '' @ str_int (year b) @ '', Status: '' @ status b"

subsection \<open>JSON documents\<close>

text \<open>
  The object that \<open>json.load\<close> returns. A \<open>JObj\<close> lists the items of a \<open>dict\<close>, so
  its keys are distinct. Floating-point numbers are left out. The file is modelled by
  the value its text denotes: what \<open>json.dump\<close> writes for a list of dictionaries
  with string keys and integer or string values, \<open>json.load\<close> reads back as an equal
  list.
\<close>

datatype jvalue =
  JNull
  | JBool bool
  | JInt int
  | JStr string
  | JArr "jvalue list"
  | JObj "(string \<times> jvalue) list"

text \<open>
  What is on disk under \<open>FILE_PATH\<close>, when the file exists, by what \<open>json.load\<close>
  does with it:
  \<^item> \<open>NotUTF8\<close>: bytes that are not UTF-8; reading the file, which was opened with
    \<open>encoding="utf-8"\<close>, raises \<open>UnicodeDecodeError\<close>;
  \<^item> \<open>NotJSON\<close>: text that is not JSON; the parser raises \<open>JSONDecodeError\<close>;
  \<^item> \<open>Doc v\<close>: the text of the document \<open>v\<close>, which \<open>json.load\<close> returns.
\<close>

datatype content = NotUTF8 | NotJSON | Doc jvalue

text \<open>
  The exceptions that leave \<open>load_books\<close>. \<open>IllTyped\<close> is not an exception: it
  marks a document that gives a field a value outside the type annotated in
  \<open>Book.__init__\<close>, with which the source goes on: it has no type check, and the
  record above cannot hold such a book. No theorem below is about that case.
\<close>

datatype failure = UnicodeDecodeError | KeyError string | TypeError | IllTyped

text \<open>\<open>Book.to_dict\<close>.\<close>

definition to_dict :: "Book \<Rightarrow> jvalue" where
  "to_dict b =
     JObj [(''id'', JInt (book_id b)), (''title'', JStr (title b)),
           (''author'', JStr (author b)), (''year'', JInt (year b)),
           (''status'', JStr (status b))]"

text \<open>
  \<open>data[key]\<close> with a string key: a dictionary looks the key up and raises
  \<open>KeyError\<close> when it is missing; every other value raises \<open>TypeError\<close>.
\<close>

fun subscript :: "jvalue \<Rightarrow> string \<Rightarrow> failure + jvalue" where
  "subscript (JObj kvs) k = (case map_of kvs k of None \<Rightarrow> Inl (KeyError k) | Some v \<Rightarrow> Inr v)"
| "subscript _ k = Inl TypeError"

text \<open>
  The book that \<open>Book(...)\<close> builds from the five values, and what the loop of
  \<open>load_books\<close> does with it. An id that is a string, \<open>None\<close>, a list or a
  dictionary makes \<open>book.book_id + 1\<close> raise \<open>TypeError\<close>, whatever the other fields
  are. With an id that is a boolean, or with another field outside its type, the
  source goes on; that is the case marked \<open>IllTyped\<close>.
\<close>

fun typed_Book :: "jvalue \<Rightarrow> jvalue \<Rightarrow> jvalue \<Rightarrow> jvalue \<Rightarrow> jvalue \<Rightarrow> failure + Book" where
  "typed_Book (JInt i) (JStr t) (JStr a) (JInt y) (JStr st) =
     Inr \<lparr>book_id = i, title = t, author = a, year = y, status = st\<rparr>"
| "typed_Book (JStr i) t a y st = Inl TypeError"
| "typed_Book JNull t a y st = Inl TypeError"
| "typed_Book (JArr i) t a y st = Inl TypeError"
| "typed_Book (JObj i) t a y st = Inl TypeError"
| "typed_Book i t a y st = Inl IllTyped"

text \<open>\<open>Book.from_dict\<close>: the five subscripts are evaluated from left to right.\<close>

definition from_dict :: "jvalue \<Rightarrow> failure + Book" where
  "from_dict data =
     (case subscript data ''id'' of Inl e \<Rightarrow> Inl e | Inr i \<Rightarrow>
     (case subscript data ''title'' of Inl e \<Rightarrow> Inl e | Inr t \<Rightarrow>
     (case subscript data ''author'' of Inl e \<Rightarrow> Inl e | Inr a \<Rightarrow>
     (case subscript data ''year'' of Inl e \<Rightarrow> Inl e | Inr y \<Rightarrow>
     (case subscript data ''status'' of Inl e \<Rightarrow> Inl e | Inr st \<Rightarrow>
        typed_Book i t a y st)))))"

subsection \<open>class Library\<close>

text \<open>
  The lines the program prints, one constructor for each \<open>print\<close> of the class, with
  the values its f-string interpolates:
  \<^item> \<open>ReadError\<close>: the file could not be read, the library has no books
    (\<open>load_books\<close>);
  \<^item> \<open>Added title id\<close>: the book was added under this id (\<open>add_book\<close>);
  \<^item> \<open>Removed id\<close>: the book with this id was removed (\<open>remove_book\<close>);
  \<^item> \<open>NotFound id\<close>: error, no book with this id (\<open>remove_book\<close> and
    \<open>update_status\<close> print the same text);
  \<^item> \<open>InvalidKey\<close>: error, wrong search key (\<open>search_books\<close>);
  \<^item> \<open>FoundHeader\<close>, \<open>NoneFound\<close>: the heading of the books found, and no book
    found (\<open>search_books\<close>);
  \<^item> \<open>ListHeader\<close>, \<open>LibraryEmpty\<close>: the heading of the list of all books, and
    the library is empty (\<open>display_books\<close>);
  \<^item> \<open>StatusUpdated title status\<close>: the status of the book was updated
    (\<open>update_status\<close>);
  \<^item> \<open>Line s\<close>: \<open>print(book)\<close>, with \<open>s\<close> the text of \<open>Book.__str__\<close>.
\<close>

datatype msg =
  ReadError
  | Added string int
  | Removed int
  | NotFound int
  | InvalidKey
  | FoundHeader
  | NoneFound
  | ListHeader
  | LibraryEmpty
  | StatusUpdated string string
  | Line string

text \<open>
  \<open>books\<close> and \<open>current_id\<close> are the attributes of the \<open>Library\<close>; \<open>disk\<close> is
  \<open>library.json\<close> on disk (\<open>None\<close> when it does not exist); \<open>out\<close> is the
  console.
\<close>

record state =
  books :: "Book list"
  current_id :: int
  disk :: "content option"
  out :: "msg list"

text \<open>
  \<open>for book_data in data\<close>: a list gives its elements, a dictionary its keys, a
  string its characters; \<open>None\<close>, a boolean and a number raise \<open>TypeError\<close>.
\<close>

fun iter :: "jvalue \<Rightarrow> failure + jvalue list" where
  "iter (JArr xs) = Inr xs"
| "iter (JObj kvs) = Inr (map (\<lambda>kv. JStr (fst kv)) kvs)"
| "iter (JStr s) = Inr (map (\<lambda>c. JStr [c]) s)"
| "iter _ = Inl TypeError"

text \<open>The body of the loop of \<open>load_books\<close>, for the elements still to read.\<close>

fun load_loop :: "jvalue list \<Rightarrow> state \<Rightarrow> failure + state" where
  "load_loop [] s = Inr s"
| "load_loop (book_data # rest) s =
     (case from_dict book_data of
        Inl e \<Rightarrow> Inl e
      | Inr book \<Rightarrow>
          load_loop rest
            (s\<lparr>books := books s @ [book],
               current_id := max (current_id s) (book_id book + 1)\<rparr>))"

text \<open>
  \<open>load_books\<close>: only \<open>JSONDecodeError\<close> is caught; it is raised by \<open>json.load\<close>,
  before the loop. Every other exception leaves the method, and the file is only
  read.
\<close>

definition load_books :: "state \<Rightarrow> failure + state" where
  "load_books s =
     (case disk s of
        None \<Rightarrow> Inr s
      | Some NotUTF8 \<Rightarrow> Inl UnicodeDecodeError
      | Some NotJSON \<Rightarrow> Inr (s\<lparr>out := out s @ [ReadError]\<rparr>)
      | Some (Doc data) \<Rightarrow>
          (case iter data of Inl e \<Rightarrow> Inl e | Inr items \<Rightarrow> load_loop items s))"

text \<open>
  \<open>Library.__init__\<close>, which the program runs once when it starts: an empty list,
  the counter at 1, then \<open>load_books\<close>. The argument is the file on disk.
\<close>

definition Library_init :: "content option \<Rightarrow> failure + state" where
  "Library_init f = load_books \<lparr>books = [], current_id = 1, disk = f, out = []\<rparr>"

text \<open>\<open>save_books\<close> overwrites the file with the list of dictionaries.\<close>

definition save_books :: "state \<Rightarrow> state" where
  "save_books s = s\<lparr>disk := Some (Doc (JArr (map to_dict (books s))))\<rparr>"

text \<open>\<open>add_book\<close>.\<close>

definition add_book :: "string \<Rightarrow> string \<Rightarrow> int \<Rightarrow> state \<Rightarrow> state" where
  "add_book t a y s =
     (let book = \<lparr>book_id = current_id s, title = t, author = a, year = y,
                   status = default_status\<rparr>;
          s1 = s\<lparr>books := books s @ [book]\<rparr>;
          s2 = s1\<lparr>current_id := current_id s1 + 1\<rparr>;
          s3 = save_books s2
      in s3\<lparr>out := out s3 @ [Added t (book_id book)]\<rparr>)"

text \<open>
  \<open>next((book for book in self.books if book.book_id == book_id), None)\<close>: the
  first book with the id, if there is one.
\<close>

definition find_book :: "int \<Rightarrow> Book list \<Rightarrow> Book option" where
  "find_book i bs = find (\<lambda>book. book_id book = i) bs"

text \<open>
  \<open>remove_book\<close>. A \<open>Book\<close> is true in a condition, \<open>None\<close> is false.
  \<open>self.books.remove(book_to_remove)\<close> removes the first element equal to the
  book found; \<open>Book\<close> defines no \<open>__eq__\<close>, so that is the object found itself.
  The model compares values: an earlier book with the same values would have the
  same id and would have been the one found.
\<close>

definition remove_book :: "int \<Rightarrow> state \<Rightarrow> state" where
  "remove_book i s =
     (case find_book i (books s) of
        Some book_to_remove \<Rightarrow>
          (let s1 = s\<lparr>books := remove1 book_to_remove (books s)\<rparr>;
               s2 = save_books s1
           in s2\<lparr>out := out s2 @ [Removed i]\<rparr>)
      | None \<Rightarrow> s\<lparr>out := out s @ [NotFound i]\<rparr>)"

text \<open>
  \<open>str(getattr(book, key, ""))\<close> for the four keys that \<open>search_books\<close> lets
  through; no other key reaches it.
\<close>

definition getattr_str :: "Book \<Rightarrow> string \<Rightarrow> string" where
  "getattr_str book key =
     (if key = ''title'' then title book
      else if key = ''author'' then author book
      else if key = ''year'' then str_int (year book)
      else if key = ''status'' then status book
      else '''')"

text \<open>The list comprehension of \<open>search_books\<close>.\<close>

definition results :: "string \<Rightarrow> string \<Rightarrow> Book list \<Rightarrow> Book list" where
  "results key v bs = filter (\<lambda>book. lower (getattr_str book key) = lower v) bs"

text \<open>\<open>search_books\<close>.\<close>

definition search_books :: "string \<Rightarrow> string \<Rightarrow> state \<Rightarrow> state" where
  "search_books key v s =
     (if key \<notin> set [''title'', ''author'', ''year'', ''status'']
      then s\<lparr>out := out s @ [InvalidKey]\<rparr>
      else if results key v (books s) \<noteq> []
      then s\<lparr>out := out s @ FoundHeader # map (\<lambda>book. Line (Book_str book)) (results key v (books s))\<rparr>
      else s\<lparr>out := out s @ [NoneFound]\<rparr>)"


text \<open>\<open>display_books\<close>.\<close>

definition display_books :: "state \<Rightarrow> state" where
  "display_books s =
     (if books s \<noteq> []
      then s\<lparr>out := out s @ ListHeader # map (\<lambda>book. Line (Book_str book)) (books s)\<rparr>
      else s\<lparr>out := out s @ [LibraryEmpty]\<rparr>)"

text \<open>
  \<open>book_to_update.status = new_status\<close> assigns to the object found, which is the
  first element of the list with the id.
\<close>

fun set_status :: "int \<Rightarrow> string \<Rightarrow> Book list \<Rightarrow> Book list" where
  "set_status i new_status [] = []"
| "set_status i new_status (book # rest) =
     (if book_id book = i then book\<lparr>status := new_status\<rparr> # rest
      else book # set_status i new_status rest)"

text \<open>\<open>update_status\<close>.\<close>

definition update_status :: "int \<Rightarrow> string \<Rightarrow> state \<Rightarrow> state" where
  "update_status i new_status s =
     (case find_book i (books s) of
        Some book_to_update \<Rightarrow>
          (let s1 = s\<lparr>books := set_status i new_status (books s)\<rparr>;
               s2 = save_books s1
           in s2\<lparr>out := out s2 @ [StatusUpdated (title book_to_update) new_status]\<rparr>)
      | None \<Rightarrow> s\<lparr>out := out s @ [NotFound i]\<rparr>)"

subsection \<open>Sequences of operations\<close>

text \<open>
  The five choices of the menu that call the \<open>Library\<close>, with their arguments
  already parsed, and a run of the menu loop over a list of choices.
\<close>

datatype op =
  Add string string int
  | Remove int
  | Search string string
  | Display
  | UpdateStatus int string

fun exec :: "op \<Rightarrow> state \<Rightarrow> state" where
  "exec (Add t a y) s = add_book t a y s"
| "exec (Remove i) s = remove_book i s"
| "exec (Search key v) s = search_books key v s"
| "exec Display s = display_books s"
| "exec (UpdateStatus i new_status) s = update_status i new_status s"

fun run :: "op list \<Rightarrow> state \<Rightarrow> state" where
  "run [] s = s"
| "run (c # cs) s = run cs (exec c s)"

text \<open>
  The id that each \<open>Add\<close> of a run gives its book, in the order of the run: the id
  of the book that stands last in the list once \<open>add_book\<close> has returned.
\<close>

fun assigned_ids :: "op list \<Rightarrow> state \<Rightarrow> int list" where
  "assigned_ids [] s = []"
| "assigned_ids (c # cs) s =
     (case c of
        Add t a y \<Rightarrow> [book_id (last (books (exec c s)))]
      | _ \<Rightarrow> []) @ assigned_ids cs (exec c s)"

text \<open>The \<open>Library\<close> of a first start, when there is no file yet.\<close>

definition fresh :: state where
  "fresh = \<lparr>books = [], current_id = 1, disk = None, out = []\<rparr>"

subsection \<open>Comparing without regard to case\<close>








subsection \<open>Well-formed files\<close>

text \<open>
  A record object, as the format of the backing file describes it: a dictionary
  whose keys \<open>id\<close>, \<open>title\<close>, \<open>author\<close>, \<open>year\<close> and \<open>status\<close> hold the five
  attributes of a book, the id and the year as integers and the rest as text. A
  well-formed file is a list of record objects.
\<close>

definition has_fields :: "jvalue \<Rightarrow> Book \<Rightarrow> bool" where
  "has_fields data b =
     (case data of
        JObj kvs \<Rightarrow>
          map_of kvs ''id'' = Some (JInt (book_id b)) \<and>
          map_of kvs ''title'' = Some (JStr (title b)) \<and>
          map_of kvs ''author'' = Some (JStr (author b)) \<and>
          map_of kvs ''year'' = Some (JInt (year b)) \<and>
          map_of kvs ''status'' = Some (JStr (status b))
      | _ \<Rightarrow> False)"

section \<open>Properties\<close>

subsection \<open>Finding, removing and updating the first book with an id\<close>

lemma find_book_None: "(find_book i bs = None) = (i \<notin> set (map book_id bs))"
  by (auto simp: find_book_def find_None_iff)

lemma find_book_first:
  "\<forall>x\<in>set pre. book_id x \<noteq> book_id b \<Longrightarrow> find_book (book_id b) (pre @ b # post) = Some b"
  by (induction pre) (auto simp: find_book_def)

lemma remove1_first:
  "\<forall>x\<in>set pre. book_id x \<noteq> book_id b \<Longrightarrow> remove1 b (pre @ b # post) = pre @ post"
  by (auto simp: remove1_append)

lemma set_status_first:
  "\<forall>x\<in>set pre. book_id x \<noteq> book_id b \<Longrightarrow>
     set_status (book_id b) new (pre @ b # post) = pre @ b\<lparr>status := new\<rparr> # post"
  by (induction pre) auto

lemma set_status_ids: "map book_id (set_status i new bs) = map book_id bs"
  by (induction bs) auto

lemma set_status_bound:
  "\<forall>b\<in>set bs. book_id b < n \<Longrightarrow> \<forall>b\<in>set (set_status i new bs). book_id b < n"
  by (induction bs) auto

lemma distinct_ids_remove1:
  "distinct (map book_id bs) \<Longrightarrow> distinct (map book_id (remove1 b bs))"
proof (induction bs)
  case Nil
  then show ?case by simp
next
  case (Cons a bs)
  have "book_id ` set (remove1 b bs) \<subseteq> book_id ` set bs"
    using set_remove1_subset [of b bs] by blast
  with Cons show ?case by auto
qed

subsection \<open>Reading a list of record objects\<close>

lemma from_dict_has_fields: "has_fields data b \<Longrightarrow> from_dict data = Inr b"
  by (cases data) (auto simp: has_fields_def from_dict_def)

lemma has_fields_to_dict: "has_fields (to_dict b) b"
  by (simp add: has_fields_def to_dict_def)

text \<open>
  The loop appends the books in the order of the file and raises the counter to the
  successor of every id it meets.
\<close>

lemma load_loop_ok:
  "list_all2 has_fields items bs \<Longrightarrow>
     load_loop items s =
       Inr (s\<lparr>books := books s @ bs,
              current_id := fold (\<lambda>b m. max m (book_id b + 1)) bs (current_id s)\<rparr>)"
proof (induction items bs arbitrary: s rule: list_all2_induct)
  case Nil
  then show ?case by simp
next
  case (Cons x xs y ys)
  then show ?case by (simp add: from_dict_has_fields)
qed

lemma fold_max_ids:
  "fold (\<lambda>b m. max m (book_id b + 1)) bs m0 =
     (if bs = [] then m0 else max m0 (Max (set (map book_id bs)) + 1))"
proof (induction bs arbitrary: m0)
  case Nil
  then show ?case by simp
next
  case (Cons b bs)
  show ?case
  proof (cases "bs = []")
    case True
    then show ?thesis by simp
  next
    case False
    then show ?thesis using Cons by (simp add: max.assoc)
  qed
qed

subsection \<open>Saving and loading\<close>

text \<open>
  Claim C1, as the code has it. For every catalog, the file that \<open>save_books\<close>
  writes is read back by a start of the program as the same books in the same order,
  each with the same id, title, author, year and status. The counter is not stored:
  after the load it is 1 for an empty catalog, and otherwise the larger of 1 and the
  largest id plus one, whatever it was when the file was saved.
\<close>

theorem save_then_load:
  "Library_init (disk (save_books s)) =
     Inr \<lparr>books = books s,
          current_id =
            (if books s = [] then 1 else max 1 (Max (set (map book_id (books s))) + 1)),
          disk = Some (Doc (JArr (map to_dict (books s)))),
          out = []\<rparr>"
proof -
  have "list_all2 has_fields (map to_dict (books s)) (books s)"
    by (simp add: list_all2_map1 has_fields_to_dict list_all2_same)
  then show ?thesis
    by (simp add: Library_init_def load_books_def save_books_def load_loop_ok fold_max_ids)
qed

text \<open>The same after two books were added: the counter 3 is met again.\<close>

theorem save_then_load_witness:
  "Library_init (disk (save_books
       (run [Add ''Dune'' ''Herbert'' 1965, Add ''Hobbit'' ''Tolkien'' 1937] fresh))) =
     Inr \<lparr>books = books (run [Add ''Dune'' ''Herbert'' 1965, Add ''Hobbit'' ''Tolkien'' 1937] fresh),
          current_id = 3,
          disk = disk (run [Add ''Dune'' ''Herbert'' 1965, Add ''Hobbit'' ''Tolkien'' 1937] fresh),
          out = []\<rparr>"
  using save_then_load [of "run [Add ''Dune'' ''Herbert'' 1965, Add ''Hobbit'' ''Tolkien'' 1937] fresh"]
  by (simp add: fresh_def add_book_def save_books_def Let_def)

text \<open>
  Claim C1 as the specification states it fails for the counter. Two books are added
  and the second is removed: the counter is 3 and the catalog holds the book with
  id 1. A start of the program from the saved file gives the same book and the
  counter 2.
\<close>

theorem next_id_not_restored:
  "current_id (run [Add ''Dune'' ''Herbert'' 1965, Add ''Hobbit'' ''Tolkien'' 1937, Remove 2] fresh) = 3 \<and>
   Library_init (disk (save_books
       (run [Add ''Dune'' ''Herbert'' 1965, Add ''Hobbit'' ''Tolkien'' 1937, Remove 2] fresh))) =
     Inr \<lparr>books = [\<lparr>book_id = 1, title = ''Dune'', author = ''Herbert'', year = 1965,
                      status = default_status\<rparr>],
          current_id = 2,
          disk = Some (Doc (JArr [to_dict \<lparr>book_id = 1, title = ''Dune'', author = ''Herbert'',
                                     year = 1965, status = default_status\<rparr>])),
          out = []\<rparr>"
  by (simp add: fresh_def add_book_def remove_book_def find_book_def save_books_def Let_def
        Library_init_def load_books_def from_dict_def to_dict_def)

text \<open>
  Claim C3 does not hold of the code. A file of bytes that are not UTF-8 is a file
  that exists and is not valid structured data; \<open>json.load\<close> raises
  \<open>UnicodeDecodeError\<close> on it, \<open>except json.JSONDecodeError\<close> does not catch that,
  and the exception leaves \<open>load_books\<close> and \<open>Library.__init__\<close>: no diagnostic, no
  empty catalog, the program ends.
\<close>

theorem load_not_utf8_raises:
  "Library_init (Some NotUTF8) = Inl UnicodeDecodeError"
  by (simp add: Library_init_def load_books_def)

text \<open>
  The handler covers the text that the parser rejects: then \<open>load_books\<close> returns
  normally, prints the diagnostic and changes nothing else, so that the program
  starts with an empty catalog and the counter at 1, and the file stays as it is.
\<close>

lemma load_not_json:
  "load_books (s\<lparr>disk := Some NotJSON\<rparr>) =
     Inr (s\<lparr>disk := Some NotJSON, out := out s @ [ReadError]\<rparr>) \<and>
   Library_init (Some NotJSON) =
     Inr \<lparr>books = [], current_id = 1, disk = Some NotJSON, out = [ReadError]\<rparr>"
  by (simp add: load_books_def Library_init_def)

text \<open>
  A failure of the load after the parser has accepted the file is not caught
  either: a list with one empty dictionary makes \<open>from_dict\<close> raise \<open>KeyError\<close>.
\<close>

lemma load_missing_key_raises:
  "Library_init (Some (Doc (JArr [JObj []]))) = Inl (KeyError ''id'')"
  by (simp add: Library_init_def load_books_def from_dict_def)

text \<open>
  Claim C4, as the code has it. For every well-formed file, a list of record objects,
  the start of the program returns with exactly the records of the file in the order
  of the file, prints nothing and leaves the file as it is. The counter is 1 when the
  file has no record, and otherwise the larger of 1 and the largest id plus one: the
  largest id plus one as soon as some id is not negative.
\<close>

theorem load_well_formed:
  assumes "list_all2 has_fields items bs"
  shows "Library_init (Some (Doc (JArr items))) =
     Inr \<lparr>books = bs,
          current_id = (if bs = [] then 1 else max 1 (Max (set (map book_id bs)) + 1)),
          disk = Some (Doc (JArr items)),
          out = []\<rparr> \<and>
     ((\<exists>b\<in>set bs. 0 \<le> book_id b) \<longrightarrow>
        (if bs = [] then 1 else max 1 (Max (set (map book_id bs)) + 1)) =
          Max (set (map book_id bs)) + 1)"
proof -
  have l: "Library_init (Some (Doc (JArr items))) =
     Inr \<lparr>books = bs,
          current_id = (if bs = [] then 1 else max 1 (Max (set (map book_id bs)) + 1)),
          disk = Some (Doc (JArr items)),
          out = []\<rparr>"
    using assms by (simp add: Library_init_def load_books_def load_loop_ok fold_max_ids)
  have m: "(\<exists>b\<in>set bs. 0 \<le> book_id b) \<longrightarrow>
        (if bs = [] then 1 else max 1 (Max (set (map book_id bs)) + 1)) =
          Max (set (map book_id bs)) + 1"
  proof
    assume "\<exists>b\<in>set bs. 0 \<le> book_id b"
    then obtain b where b: "b \<in> set bs" "0 \<le> book_id b"
      by blast
    then have "book_id b \<le> Max (book_id ` set bs)"
      by simp
    with b have ge: "0 \<le> Max (book_id ` set bs)"
      by linarith
    from b have ne: "bs \<noteq> []"
      by auto
    from ge ne show "(if bs = [] then 1 else max 1 (Max (set (map book_id bs)) + 1)) =
        Max (set (map book_id bs)) + 1"
      by simp
  qed
  from l m show ?thesis by blast
qed

text \<open>
  Claim C4 as the specification states it fails when every id of the file is
  negative: with the single id \<open>- 5\<close> the counter is 1 after the load, not \<open>- 4\<close>.
\<close>

theorem load_negative_id:
  "Library_init (Some (Doc (JArr
       [JObj [(''id'', JInt (- 5)), (''title'', JStr ''Dune''), (''author'', JStr ''Herbert''),
              (''year'', JInt 1965), (''status'', JStr ''loaned'')]]))) =
     Inr \<lparr>books = [\<lparr>book_id = - 5, title = ''Dune'', author = ''Herbert'', year = 1965,
                      status = ''loaned''\<rparr>],
          current_id = 1,
          disk = Some (Doc (JArr
            [JObj [(''id'', JInt (- 5)), (''title'', JStr ''Dune''), (''author'', JStr ''Herbert''),
                   (''year'', JInt 1965), (''status'', JStr ''loaned'')]])),
          out = []\<rparr>"
  by (simp add: Library_init_def load_books_def from_dict_def)

text \<open>A well-formed file with two records, the keys of the first in another order.\<close>

theorem load_well_formed_witness:
  "list_all2 has_fields
     [JObj [(''title'', JStr ''Hobbit''), (''id'', JInt 7), (''author'', JStr ''Tolkien''),
            (''year'', JInt 1937), (''status'', JStr ''loaned'')],
      JObj [(''id'', JInt 2), (''title'', JStr ''Dune''), (''author'', JStr ''Herbert''),
            (''year'', JInt 1965), (''status'', JStr ''available'')]]
     [\<lparr>book_id = 7, title = ''Hobbit'', author = ''Tolkien'', year = 1937, status = ''loaned''\<rparr>,
      \<lparr>book_id = 2, title = ''Dune'', author = ''Herbert'', year = 1965, status = ''available''\<rparr>] \<and>
   Library_init (Some (Doc (JArr
     [JObj [(''title'', JStr ''Hobbit''), (''id'', JInt 7), (''author'', JStr ''Tolkien''),
            (''year'', JInt 1937), (''status'', JStr ''loaned'')],
      JObj [(''id'', JInt 2), (''title'', JStr ''Dune''), (''author'', JStr ''Herbert''),
            (''year'', JInt 1965), (''status'', JStr ''available'')]]))) =
     Inr \<lparr>books =
            [\<lparr>book_id = 7, title = ''Hobbit'', author = ''Tolkien'', year = 1937, status = ''loaned''\<rparr>,
             \<lparr>book_id = 2, title = ''Dune'', author = ''Herbert'', year = 1965, status = ''available''\<rparr>],
          current_id = 8,
          disk = Some (Doc (JArr
            [JObj [(''title'', JStr ''Hobbit''), (''id'', JInt 7), (''author'', JStr ''Tolkien''),
                   (''year'', JInt 1937), (''status'', JStr ''loaned'')],
             JObj [(''id'', JInt 2), (''title'', JStr ''Dune''), (''author'', JStr ''Herbert''),
                   (''year'', JInt 1965), (''status'', JStr ''available'')]])),
          out = []\<rparr>"
proof -
  have h: "list_all2 has_fields
     [JObj [(''title'', JStr ''Hobbit''), (''id'', JInt 7), (''author'', JStr ''Tolkien''),
            (''year'', JInt 1937), (''status'', JStr ''loaned'')],
      JObj [(''id'', JInt 2), (''title'', JStr ''Dune''), (''author'', JStr ''Herbert''),
            (''year'', JInt 1965), (''status'', JStr ''available'')]]
     [\<lparr>book_id = 7, title = ''Hobbit'', author = ''Tolkien'', year = 1937, status = ''loaned''\<rparr>,
      \<lparr>book_id = 2, title = ''Dune'', author = ''Herbert'', year = 1965, status = ''available''\<rparr>]"
    by (simp add: has_fields_def)
  show ?thesis using h load_well_formed [OF h] by simp
qed

subsection \<open>Adding a book\<close>

text \<open>
  Claim C2, as the code has it. For every state and all arguments, \<open>add_book\<close>
  returns: it appends at the end of the catalog a book with the id \<open>current_id\<close>,
  the title, author and year given and the default status of \<open>Book.__init__\<close>
  (the Russian phrase, not the English word), raises the counter by one, writes the
  whole catalog to the file, and reports the id in the line it prints. The method
  itself returns nothing.
\<close>

theorem add_book_effect:
  "add_book t a y s =
     \<lparr>books = books s @ [\<lparr>book_id = current_id s, title = t, author = a, year = y,
                            status = default_status\<rparr>],
      current_id = current_id s + 1,
      disk = Some (Doc (JArr (map to_dict
               (books s @ [\<lparr>book_id = current_id s, title = t, author = a, year = y,
                             status = default_status\<rparr>])))),
      out = out s @ [Added t (current_id s)]\<rparr>"
  by (cases s) (simp add: add_book_def save_books_def Let_def)

text \<open>The first book of a new library gets the id 1.\<close>

theorem add_book_effect_witness:
  "add_book ''Dune'' ''Herbert'' 1965 fresh =
     \<lparr>books = [\<lparr>book_id = 1, title = ''Dune'', author = ''Herbert'', year = 1965,
                  status = default_status\<rparr>],
      current_id = 2,
      disk = Some (Doc (JArr
        [JObj [(''id'', JInt 1), (''title'', JStr ''Dune''), (''author'', JStr ''Herbert''),
               (''year'', JInt 1965), (''status'', JStr default_status)]])),
      out = [Added ''Dune'' 1]\<rparr>"
  using add_book_effect [of "''Dune''" "''Herbert''" 1965 fresh]
  by (simp add: fresh_def to_dict_def)

text \<open>
  Claim C2 as the specification states it fails for the status: the book that
  \<open>add_book\<close> appends does not have the status \<open>available\<close>.
\<close>

theorem default_status_not_available:
  "status (last (books (add_book ''Dune'' ''Herbert'' 1965 fresh))) \<noteq> ''available''"
  by (simp add: add_book_def save_books_def fresh_def default_status_def Let_def)

subsection \<open>Lower case on ASCII text\<close>



















text \<open>
  Beyond ASCII: a Greek word in capitals, whose last letter becomes the final
  sigma; a capital sigma at the start of a word, which becomes the small sigma; the
  capital I with a dot above, which becomes two code points; a capital letter of
  the Deseret alphabet, which takes four bytes.
\<close>

lemma lower_samples:
  "lower [CHR 0xCE, CHR 0x9F, CHR 0xCE, CHR 0x94, CHR 0xCE, CHR 0x9F, CHR 0xCE, CHR 0xA3] =
     [CHR 0xCE, CHR 0xBF, CHR 0xCE, CHR 0xB4, CHR 0xCE, CHR 0xBF, CHR 0xCF, CHR 0x82]"
  "lower [CHR 0xCE, CHR 0xA3, CHR 0xCE, CHR 0x91] = [CHR 0xCF, CHR 0x83, CHR 0xCE, CHR 0xB1]"
  "lower [CHR 0xC4, CHR 0xB0] = [CHR 0x69, CHR 0xCC, CHR 0x87]"
  "lower [CHR 0xF0, CHR 0x90, CHR 0x90, CHR 0x80] = [CHR 0xF0, CHR 0x90, CHR 0x90, CHR 0xA8]"
  by code_simp+

subsection \<open>Searching\<close>




subsection \<open>The counter and the ids\<close>

text \<open>No operation lowers the counter.\<close>

lemma current_id_mono: "current_id s \<le> current_id (exec c s)"
  by (cases c)
     (simp_all add: add_book_def remove_book_def search_books_def display_books_def
        update_status_def save_books_def Let_def split: option.splits)

lemma add_book_id: "book_id (last (books (add_book t a y s))) = current_id s"
  by (simp add: add_book_def save_books_def Let_def)

lemma add_book_next: "current_id (add_book t a y s) = current_id s + 1"
  by (simp add: add_book_def save_books_def Let_def)

text \<open>
  The invariant of the catalog: the ids are pairwise distinct and all below the
  counter. Every operation keeps it.
\<close>

lemma exec_distinct:
  assumes "distinct (map book_id (books s))" and "\<forall>b\<in>set (books s). book_id b < current_id s"
  shows "distinct (map book_id (books (exec c s)))"
proof (cases c)
  case (Add t a y)
  with assms show ?thesis by (auto simp: add_book_def save_books_def Let_def)
next
  case (Remove i)
  with assms show ?thesis
    by (simp add: remove_book_def save_books_def Let_def distinct_ids_remove1 split: option.splits)
next
  case (Search key v)
  with assms show ?thesis by (simp add: search_books_def)
next
  case Display
  with assms show ?thesis by (simp add: display_books_def)
next
  case (UpdateStatus i new)
  with assms show ?thesis
    by (simp add: update_status_def save_books_def Let_def set_status_ids split: option.splits)
qed

lemma exec_below:
  assumes "\<forall>b\<in>set (books s). book_id b < current_id s"
  shows "\<forall>b\<in>set (books (exec c s)). book_id b < current_id (exec c s)"
proof (cases c)
  case (Add t a y)
  with assms show ?thesis by (auto simp: add_book_def save_books_def Let_def)
next
  case (Remove i)
  with assms show ?thesis
    by (auto simp: remove_book_def save_books_def Let_def split: option.splits
          dest: notin_set_remove1)
next
  case (Search key v)
  with assms show ?thesis by (simp add: search_books_def)
next
  case Display
  with assms show ?thesis by (simp add: display_books_def)
next
  case (UpdateStatus i new)
  with assms set_status_bound [of "books s" "current_id s" i new] show ?thesis
    by (simp add: update_status_def save_books_def Let_def split: option.splits)
qed

lemma run_inv:
  "distinct (map book_id (books s)) \<Longrightarrow> \<forall>b\<in>set (books s). book_id b < current_id s \<Longrightarrow>
     distinct (map book_id (books (run cs s))) \<and>
     (\<forall>b\<in>set (books (run cs s)). book_id b < current_id (run cs s))"
proof (induction cs arbitrary: s)
  case Nil
  then show ?case by simp
next
  case (Cons c cs)
  show ?case
    using Cons.IH [OF exec_distinct [OF Cons.prems] exec_below [OF Cons.prems(2)]] by simp
qed

lemma assigned_ids_lower: "\<forall>x\<in>set (assigned_ids cs s). current_id s \<le> x"
proof (induction cs arbitrary: s)
  case Nil
  then show ?case by simp
next
  case (Cons c cs)
  have "\<forall>x\<in>set (assigned_ids cs (exec c s)). current_id s \<le> x"
    using Cons [of "exec c s"] current_id_mono [of s c] by fastforce
  then show ?case by (cases c) (simp_all add: add_book_id)
qed

text \<open>
  Claim C6. In every run of operations, from every state, each id that \<open>add_book\<close>
  gives is strictly greater than every id it gave earlier in the run, whether or not
  the earlier book has been removed since: the list of the ids given, in the order
  of the run, is strictly increasing.
\<close>

theorem ids_strictly_increasing: "sorted_wrt (<) (assigned_ids cs s)"
proof (induction cs arbitrary: s)
  case Nil
  then show ?case by simp
next
  case (Cons c cs)
  show ?case
  proof (cases c)
    case (Add t a y)
    have "\<forall>x\<in>set (assigned_ids cs (add_book t a y s)). current_id s < x"
      using assigned_ids_lower [of cs "add_book t a y s"] by (auto simp: add_book_next)
    with Cons Add show ?thesis by (simp add: add_book_id)
  qed (use Cons in simp_all)
qed

text \<open>
  Two books are added and both are removed: the third book gets the id 3.
\<close>

theorem ids_strictly_increasing_witness:
  "assigned_ids [Add ''Dune'' ''Herbert'' 1965, Add ''Hobbit'' ''Tolkien'' 1937, Remove 1,
                 Remove 2, Add ''Foundation'' ''Asimov'' 1951] fresh = [1, 2, 3] \<and>
   sorted_wrt (<)
     (assigned_ids [Add ''Dune'' ''Herbert'' 1965, Add ''Hobbit'' ''Tolkien'' 1937, Remove 1,
                    Remove 2, Add ''Foundation'' ''Asimov'' 1951] fresh)"
  using ids_strictly_increasing
    [of "[Add ''Dune'' ''Herbert'' 1965, Add ''Hobbit'' ''Tolkien'' 1937, Remove 1,
          Remove 2, Add ''Foundation'' ''Asimov'' 1951]" fresh]
  by (simp add: fresh_def add_book_def remove_book_def find_book_def save_books_def Let_def)

text \<open>
  Claim C7. In every state that a run of operations reaches from the empty catalog
  with the counter at 1, the ids of the books are pairwise distinct and each is
  strictly below the counter. In every state at all, no operation lowers the
  counter, \<open>remove_book\<close> included.
\<close>

theorem catalog_invariant:
  "distinct (map book_id (books (run cs \<lparr>books = [], current_id = 1, disk = f, out = ms\<rparr>))) \<and>
   (\<forall>b\<in>set (books (run cs \<lparr>books = [], current_id = 1, disk = f, out = ms\<rparr>)).
      book_id b < current_id (run cs \<lparr>books = [], current_id = 1, disk = f, out = ms\<rparr>)) \<and>
   current_id s \<le> current_id (exec c s)"
  using run_inv [of "\<lparr>books = [], current_id = 1, disk = f, out = ms\<rparr>" cs]
    current_id_mono [of s c]
  by simp

text \<open>
  The run of the end-to-end scenario: the books left have the ids 2 and 3, the
  counter is 4, and it still is after the book with the id 3 is removed.
\<close>

theorem catalog_invariant_witness:
  "map book_id (books (run [Add ''Dune'' ''Herbert'' 1965, Add ''Hobbit'' ''Tolkien'' 1937,
        Remove 1, Add ''Foundation'' ''Asimov'' 1951, UpdateStatus 3 ''loaned''] fresh)) = [2, 3] \<and>
   current_id (run [Add ''Dune'' ''Herbert'' 1965, Add ''Hobbit'' ''Tolkien'' 1937,
        Remove 1, Add ''Foundation'' ''Asimov'' 1951, UpdateStatus 3 ''loaned''] fresh) = 4 \<and>
   distinct (map book_id (books (run [Add ''Dune'' ''Herbert'' 1965,
        Add ''Hobbit'' ''Tolkien'' 1937, Remove 1, Add ''Foundation'' ''Asimov'' 1951,
        UpdateStatus 3 ''loaned''] fresh))) \<and>
   current_id (exec (Remove 3) (run [Add ''Dune'' ''Herbert'' 1965,
        Add ''Hobbit'' ''Tolkien'' 1937, Remove 1, Add ''Foundation'' ''Asimov'' 1951,
        UpdateStatus 3 ''loaned''] fresh)) = 4"
  using catalog_invariant
    [of "[Add ''Dune'' ''Herbert'' 1965, Add ''Hobbit'' ''Tolkien'' 1937, Remove 1,
          Add ''Foundation'' ''Asimov'' 1951, UpdateStatus 3 ''loaned'']" None "[]"
        "run [Add ''Dune'' ''Herbert'' 1965, Add ''Hobbit'' ''Tolkien'' 1937, Remove 1,
          Add ''Foundation'' ''Asimov'' 1951, UpdateStatus 3 ''loaned''] fresh" "Remove 3"]
  by (simp add: fresh_def add_book_def remove_book_def update_status_def find_book_def
        save_books_def Let_def)

subsection \<open>Removing a book and updating a status\<close>

text \<open>
  Claim C8. When no book has the id, \<open>remove_book\<close> and \<open>update_status\<close> print
  the not-found error and change nothing else: the books, the counter and the file
  stay as they were. The outcome can be told apart from a success: the last line
  printed is the not-found error exactly when no book has the id.
\<close>

theorem not_found_no_change:
  "(i \<notin> set (map book_id (books s)) \<longrightarrow>
      remove_book i s = s\<lparr>out := out s @ [NotFound i]\<rparr> \<and>
      update_status i new s = s\<lparr>out := out s @ [NotFound i]\<rparr>) \<and>
   (last (out (remove_book i s)) = NotFound i) = (i \<notin> set (map book_id (books s))) \<and>
   (last (out (update_status i new s)) = NotFound i) = (i \<notin> set (map book_id (books s)))"
proof -
  have absent: "i \<notin> set (map book_id (books s)) \<longrightarrow>
      remove_book i s = s\<lparr>out := out s @ [NotFound i]\<rparr> \<and>
      update_status i new s = s\<lparr>out := out s @ [NotFound i]\<rparr>"
  proof
    assume "i \<notin> set (map book_id (books s))"
    then have "find_book i (books s) = None"
      by (simp add: find_book_None)
    then show "remove_book i s = s\<lparr>out := out s @ [NotFound i]\<rparr> \<and>
        update_status i new s = s\<lparr>out := out s @ [NotFound i]\<rparr>"
      by (simp add: remove_book_def update_status_def)
  qed
  have r: "(last (out (remove_book i s)) = NotFound i) = (i \<notin> set (map book_id (books s)))"
    using find_book_None [of i "books s"]
    by (cases "find_book i (books s)") (simp_all add: remove_book_def save_books_def Let_def)
  have u: "(last (out (update_status i new s)) = NotFound i) = (i \<notin> set (map book_id (books s)))"
    using find_book_None [of i "books s"]
    by (cases "find_book i (books s)") (simp_all add: update_status_def save_books_def Let_def)
  from absent r u show ?thesis by blast
qed

text \<open>A catalog with the id 1 only, and the id 7.\<close>

theorem not_found_no_change_witness:
  "(7::int) \<notin> set (map book_id (books (add_book ''Dune'' ''Herbert'' 1965 fresh))) \<and>
   remove_book 7 (add_book ''Dune'' ''Herbert'' 1965 fresh) =
     \<lparr>books = books (add_book ''Dune'' ''Herbert'' 1965 fresh), current_id = 2,
      disk = disk (add_book ''Dune'' ''Herbert'' 1965 fresh),
      out = [Added ''Dune'' 1, NotFound 7]\<rparr> \<and>
   update_status 7 ''loaned'' (add_book ''Dune'' ''Herbert'' 1965 fresh) =
     \<lparr>books = books (add_book ''Dune'' ''Herbert'' 1965 fresh), current_id = 2,
      disk = disk (add_book ''Dune'' ''Herbert'' 1965 fresh),
      out = [Added ''Dune'' 1, NotFound 7]\<rparr>"
proof -
  have h: "(7::int) \<notin> set (map book_id (books (add_book ''Dune'' ''Herbert'' 1965 fresh)))"
    by (simp add: add_book_def save_books_def fresh_def Let_def)
  show ?thesis
    using h not_found_no_change [of 7 "add_book ''Dune'' ''Herbert'' 1965 fresh" "''loaned''"]
    by (simp add: add_book_def save_books_def fresh_def Let_def)
qed

text \<open>
  Claim C9. Let \<open>b\<close> be a book of the catalog that no earlier book shares its id
  with. Removing its id leaves the books before it and the books after it, in their
  order and with all their attributes, and leaves the counter. Updating the status
  of its id changes the status of \<open>b\<close> only: its id, title, author and year, every
  other book and the counter stay.
\<close>

theorem remove_update_frame:
  assumes "books s = pre @ b # post" and "\<forall>x\<in>set pre. book_id x \<noteq> book_id b"
  shows "books (remove_book (book_id b) s) = pre @ post \<and>
     current_id (remove_book (book_id b) s) = current_id s \<and>
     books (update_status (book_id b) new s) =
       pre @ \<lparr>book_id = book_id b, title = title b, author = author b, year = year b,
              status = new\<rparr> # post \<and>
     current_id (update_status (book_id b) new s) = current_id s"
proof -
  have f: "find_book (book_id b) (books s) = Some b"
    using assms find_book_first by simp
  have r: "remove1 b (books s) = pre @ post"
    using assms remove1_first by simp
  have u: "set_status (book_id b) new (books s) = pre @ b\<lparr>status := new\<rparr> # post"
    using assms set_status_first by simp
  have e: "b\<lparr>status := new\<rparr> =
      \<lparr>book_id = book_id b, title = title b, author = author b, year = year b, status = new\<rparr>"
    by (cases b) simp
  show ?thesis
    using f r u e by (simp add: remove_book_def update_status_def save_books_def Let_def)
qed

text \<open>Three books are added; the second is removed, or gets a new status.\<close>

theorem remove_update_frame_witness:
  "books (remove_book 2 (run [Add ''Dune'' ''Herbert'' 1965, Add ''Hobbit'' ''Tolkien'' 1937,
       Add ''Foundation'' ''Asimov'' 1951] fresh)) =
     [\<lparr>book_id = 1, title = ''Dune'', author = ''Herbert'', year = 1965,
         status = default_status\<rparr>,
      \<lparr>book_id = 3, title = ''Foundation'', author = ''Asimov'', year = 1951,
         status = default_status\<rparr>] \<and>
   current_id (remove_book 2 (run [Add ''Dune'' ''Herbert'' 1965,
       Add ''Hobbit'' ''Tolkien'' 1937, Add ''Foundation'' ''Asimov'' 1951] fresh)) = 4 \<and>
   books (update_status 2 ''loaned'' (run [Add ''Dune'' ''Herbert'' 1965,
       Add ''Hobbit'' ''Tolkien'' 1937, Add ''Foundation'' ''Asimov'' 1951] fresh)) =
     [\<lparr>book_id = 1, title = ''Dune'', author = ''Herbert'', year = 1965,
         status = default_status\<rparr>,
      \<lparr>book_id = 2, title = ''Hobbit'', author = ''Tolkien'', year = 1937,
         status = ''loaned''\<rparr>,
      \<lparr>book_id = 3, title = ''Foundation'', author = ''Asimov'', year = 1951,
         status = default_status\<rparr>] \<and>
   current_id (update_status 2 ''loaned'' (run [Add ''Dune'' ''Herbert'' 1965,
       Add ''Hobbit'' ''Tolkien'' 1937, Add ''Foundation'' ''Asimov'' 1951] fresh)) = 4"
proof -
  have h1: "books (run [Add ''Dune'' ''Herbert'' 1965, Add ''Hobbit'' ''Tolkien'' 1937,
       Add ''Foundation'' ''Asimov'' 1951] fresh) =
     [\<lparr>book_id = 1, title = ''Dune'', author = ''Herbert'', year = 1965,
         status = default_status\<rparr>] @
     \<lparr>book_id = 2, title = ''Hobbit'', author = ''Tolkien'', year = 1937,
        status = default_status\<rparr> #
     [\<lparr>book_id = 3, title = ''Foundation'', author = ''Asimov'', year = 1951,
         status = default_status\<rparr>]"
    by (simp add: fresh_def add_book_def save_books_def Let_def)
  have h2: "\<forall>x\<in>set [\<lparr>book_id = 1, title = ''Dune'', author = ''Herbert'', year = 1965,
         status = default_status\<rparr>].
      book_id x \<noteq> book_id \<lparr>book_id = 2, title = ''Hobbit'', author = ''Tolkien'',
         year = 1937, status = default_status\<rparr>"
    by simp
  have c: "current_id (run [Add ''Dune'' ''Herbert'' 1965, Add ''Hobbit'' ''Tolkien'' 1937,
       Add ''Foundation'' ''Asimov'' 1951] fresh) = 4"
    by (simp add: fresh_def add_book_def save_books_def Let_def)
  show ?thesis
    using c remove_update_frame [OF h1 h2, of "''loaned''"] by simp
qed

text \<open>
  Claim C10. When several books of the catalog have the id, \<open>remove_book\<close> removes
  the first of them in the order of the catalog and \<open>update_status\<close> changes the
  status of the first of them; every later book with the id, like every other book,
  stays where and as it was.
\<close>

theorem first_duplicate_only:
  assumes "books s = pre @ b # mid @ d # post"
    and "\<forall>x\<in>set pre. book_id x \<noteq> i" and "book_id b = i" and "book_id d = i"
  shows "books (remove_book i s) = pre @ mid @ d # post \<and>
     books (update_status i new s) = pre @ b\<lparr>status := new\<rparr> # mid @ d # post"
proof -
  have p: "\<forall>x\<in>set pre. book_id x \<noteq> book_id b"
    using assms by simp
  have f: "find_book (book_id b) (books s) = Some b"
    using assms(1) find_book_first [OF p] by simp
  have r: "remove1 b (books s) = pre @ mid @ d # post"
    using assms(1) remove1_first [OF p] by simp
  have u: "set_status (book_id b) new (books s) = pre @ b\<lparr>status := new\<rparr> # mid @ d # post"
    using assms(1) set_status_first [OF p] by simp
  show ?thesis
    using f r u assms(3) by (auto simp: remove_book_def update_status_def save_books_def Let_def)
qed

text \<open>
  A file that gives the id 1 to its first and to its third record is loaded with
  both. Removing the id 1 removes the first record, updating it changes the first.
\<close>

theorem first_duplicate_only_witness:
  "Library_init (Some (Doc (JArr
     [to_dict \<lparr>book_id = 1, title = ''Dune'', author = ''Herbert'', year = 1965, status = ''a''\<rparr>,
      to_dict \<lparr>book_id = 2, title = ''Hobbit'', author = ''Tolkien'', year = 1937, status = ''b''\<rparr>,
      to_dict \<lparr>book_id = 1, title = ''Foundation'', author = ''Asimov'', year = 1951,
                status = ''c''\<rparr>]))) =
     Inr \<lparr>books =
       [\<lparr>book_id = 1, title = ''Dune'', author = ''Herbert'', year = 1965, status = ''a''\<rparr>,
        \<lparr>book_id = 2, title = ''Hobbit'', author = ''Tolkien'', year = 1937, status = ''b''\<rparr>,
        \<lparr>book_id = 1, title = ''Foundation'', author = ''Asimov'', year = 1951, status = ''c''\<rparr>],
       current_id = 3,
       disk = Some (Doc (JArr
         [to_dict \<lparr>book_id = 1, title = ''Dune'', author = ''Herbert'', year = 1965, status = ''a''\<rparr>,
          to_dict \<lparr>book_id = 2, title = ''Hobbit'', author = ''Tolkien'', year = 1937, status = ''b''\<rparr>,
          to_dict \<lparr>book_id = 1, title = ''Foundation'', author = ''Asimov'', year = 1951,
                    status = ''c''\<rparr>])),
       out = []\<rparr> \<and>
   books (remove_book 1 \<lparr>books =
       [\<lparr>book_id = 1, title = ''Dune'', author = ''Herbert'', year = 1965, status = ''a''\<rparr>,
        \<lparr>book_id = 2, title = ''Hobbit'', author = ''Tolkien'', year = 1937, status = ''b''\<rparr>,
        \<lparr>book_id = 1, title = ''Foundation'', author = ''Asimov'', year = 1951, status = ''c''\<rparr>],
       current_id = 3,
       disk = Some (Doc (JArr
         [to_dict \<lparr>book_id = 1, title = ''Dune'', author = ''Herbert'', year = 1965, status = ''a''\<rparr>,
          to_dict \<lparr>book_id = 2, title = ''Hobbit'', author = ''Tolkien'', year = 1937, status = ''b''\<rparr>,
          to_dict \<lparr>book_id = 1, title = ''Foundation'', author = ''Asimov'', year = 1951,
                    status = ''c''\<rparr>])),
       out = []\<rparr>) =
     [\<lparr>book_id = 2, title = ''Hobbit'', author = ''Tolkien'', year = 1937, status = ''b''\<rparr>,
      \<lparr>book_id = 1, title = ''Foundation'', author = ''Asimov'', year = 1951, status = ''c''\<rparr>] \<and>
   books (update_status 1 ''loaned'' \<lparr>books =
       [\<lparr>book_id = 1, title = ''Dune'', author = ''Herbert'', year = 1965, status = ''a''\<rparr>,
        \<lparr>book_id = 2, title = ''Hobbit'', author = ''Tolkien'', year = 1937, status = ''b''\<rparr>,
        \<lparr>book_id = 1, title = ''Foundation'', author = ''Asimov'', year = 1951, status = ''c''\<rparr>],
       current_id = 3,
       disk = Some (Doc (JArr
         [to_dict \<lparr>book_id = 1, title = ''Dune'', author = ''Herbert'', year = 1965, status = ''a''\<rparr>,
          to_dict \<lparr>book_id = 2, title = ''Hobbit'', author = ''Tolkien'', year = 1937, status = ''b''\<rparr>,
          to_dict \<lparr>book_id = 1, title = ''Foundation'', author = ''Asimov'', year = 1951,
                    status = ''c''\<rparr>])),
       out = []\<rparr>) =
     [\<lparr>book_id = 1, title = ''Dune'', author = ''Herbert'', year = 1965, status = ''loaned''\<rparr>,
      \<lparr>book_id = 2, title = ''Hobbit'', author = ''Tolkien'', year = 1937, status = ''b''\<rparr>,
      \<lparr>book_id = 1, title = ''Foundation'', author = ''Asimov'', year = 1951, status = ''c''\<rparr>]"
proof -
  have l: "Library_init (Some (Doc (JArr
     [to_dict \<lparr>book_id = 1, title = ''Dune'', author = ''Herbert'', year = 1965, status = ''a''\<rparr>,
      to_dict \<lparr>book_id = 2, title = ''Hobbit'', author = ''Tolkien'', year = 1937, status = ''b''\<rparr>,
      to_dict \<lparr>book_id = 1, title = ''Foundation'', author = ''Asimov'', year = 1951,
                status = ''c''\<rparr>]))) =
     Inr \<lparr>books =
       [\<lparr>book_id = 1, title = ''Dune'', author = ''Herbert'', year = 1965, status = ''a''\<rparr>,
        \<lparr>book_id = 2, title = ''Hobbit'', author = ''Tolkien'', year = 1937, status = ''b''\<rparr>,
        \<lparr>book_id = 1, title = ''Foundation'', author = ''Asimov'', year = 1951, status = ''c''\<rparr>],
       current_id = 3,
       disk = Some (Doc (JArr
         [to_dict \<lparr>book_id = 1, title = ''Dune'', author = ''Herbert'', year = 1965, status = ''a''\<rparr>,
          to_dict \<lparr>book_id = 2, title = ''Hobbit'', author = ''Tolkien'', year = 1937, status = ''b''\<rparr>,
          to_dict \<lparr>book_id = 1, title = ''Foundation'', author = ''Asimov'', year = 1951,
                    status = ''c''\<rparr>])),
       out = []\<rparr>"
    by (simp add: Library_init_def load_books_def from_dict_def to_dict_def)
  have h1: "books \<lparr>books =
       [\<lparr>book_id = 1, title = ''Dune'', author = ''Herbert'', year = 1965, status = ''a''\<rparr>,
        \<lparr>book_id = 2, title = ''Hobbit'', author = ''Tolkien'', year = 1937, status = ''b''\<rparr>,
        \<lparr>book_id = 1, title = ''Foundation'', author = ''Asimov'', year = 1951, status = ''c''\<rparr>],
       current_id = 3,
       disk = Some (Doc (JArr
         [to_dict \<lparr>book_id = 1, title = ''Dune'', author = ''Herbert'', year = 1965, status = ''a''\<rparr>,
          to_dict \<lparr>book_id = 2, title = ''Hobbit'', author = ''Tolkien'', year = 1937, status = ''b''\<rparr>,
          to_dict \<lparr>book_id = 1, title = ''Foundation'', author = ''Asimov'', year = 1951,
                    status = ''c''\<rparr>])),
       out = []\<rparr> =
     [] @ \<lparr>book_id = 1, title = ''Dune'', author = ''Herbert'', year = 1965, status = ''a''\<rparr> #
     [\<lparr>book_id = 2, title = ''Hobbit'', author = ''Tolkien'', year = 1937, status = ''b''\<rparr>] @
     \<lparr>book_id = 1, title = ''Foundation'', author = ''Asimov'', year = 1951, status = ''c''\<rparr> # []"
    by simp
  have h2: "\<forall>x\<in>set ([] :: Book list). book_id x \<noteq> 1"
    by simp
  have h3: "book_id \<lparr>book_id = 1, title = ''Dune'', author = ''Herbert'', year = 1965,
      status = ''a''\<rparr> = 1"
    by simp
  have h4: "book_id \<lparr>book_id = 1, title = ''Foundation'', author = ''Asimov'', year = 1951,
      status = ''c''\<rparr> = 1"
    by simp
  show ?thesis
    using l first_duplicate_only [OF h1 h2 h3 h4, of "''loaned''"] by simp
qed

end
